theory Spec2Isabelle
  imports Main
begin

section \<open>Data model of \<^verbatim>\<open>model.py\<close>\<close>

text \<open>
  The documents of \<^verbatim>\<open>model.py\<close> are field lists over the object-document mapper. Each
  document class used by the operations below becomes a record with the fields in the
  order of the source (\<^verbatim>\<open>RankingEntry\<close>, \<^verbatim>\<open>Ranking\<close>, \<^verbatim>\<open>Region\<close>, \<^verbatim>\<open>User\<close>,
  \<^verbatim>\<open>Merge\<close> and \<^verbatim>\<open>Session\<close> have no methods and are left out). Field names
  that several classes share (\<^verbatim>\<open>id\<close>, \<^verbatim>\<open>name\<close>, \<^verbatim>\<open>winner\<close>, ...) carry a suffix
  naming the class. A field that is not \<^verbatim>\<open>required\<close> and that the source tests against
  \<^verbatim>\<open>None\<close> (or for truthiness) is an \<open>option\<close>; the list fields that the source iterates
  without such a test are lists.

  A database id (\<^verbatim>\<open>bson.objectid.ObjectId\<close>) is compared with \<^verbatim>\<open>==\<close> only, so any type
  with equality serves; natural numbers make concrete inputs easy to write.
\<close>

type_synonym ObjectId = nat

type_synonym DateTime = int

text \<open>The two exceptions raised in the source, and the error with which the mapper refuses
  a field value. \<^verbatim>\<open>ValueError\<close> carries the alias that the message is formatted from.\<close>

datatype error = TypeError | ValueError string | ValidationError

text \<open>The choices of \<^verbatim>\<open>Tournament.type\<close>, line 7 of the source.\<close>

definition SOURCE_TYPE_CHOICES :: "string list" where
  "SOURCE_TYPE_CHOICES = [''tio'', ''challonge'', ''smashgg'', ''other'']"

text \<open>Modelled from the spec: the validator \<^verbatim>\<open>orm.validate_choices\<close> of the mapper, which
  is not among the sources. By section 6 of the specification a choice validator accepts a
  value exactly when it is one of the choices (``tournament source type in tio, challonge,
  smashgg, other'').\<close>

definition validate_choices :: "string list \<Rightarrow> string \<Rightarrow> bool" where
  "validate_choices choices v = (v \<in> set choices)"

subsection \<open>Embedded documents\<close>

record AliasMapping =
  player_id :: "ObjectId option"
  player_alias :: string

record AliasMatch =
  winner_AM :: string
  loser_AM :: string

record Match =
  winner :: ObjectId
  loser :: ObjectId

text \<open>A rating holds two Python floats. The documents only store and copy them, so the
  type of floats is left abstract.\<close>

typedecl pyfloat

record Rating =
  mu :: pyfloat
  sigma :: pyfloat

text \<open>Modelled from the spec: the rating object of the external \<^verbatim>\<open>trueskill\<close> library,
  which is not among the sources. Section 6 of the specification describes it as ``a rating
  type with mean/uncertainty fields'': an object built from \<^verbatim>\<open>mu\<close> and \<^verbatim>\<open>sigma\<close> that
  gives both back when its fields are read.\<close>

record TrueskillRating =
  mu_TS :: pyfloat
  sigma_TS :: pyfloat

subsection \<open>Collection documents\<close>

record Player =
  id_P :: ObjectId
  name_P :: string
  aliases :: "string list"
  ratings :: "string \<rightharpoonup> Rating"
  regions_P :: "string list"
  merged :: bool
  merge_parent :: "ObjectId option"
  merge_children :: "ObjectId list option"

record Tournament =
  id_T :: ObjectId
  name_T :: string
  type_T :: string
  date_T :: "DateTime option"
  regions_T :: "string list"
  url_T :: "string option"
  raw_T :: "string option"
  matches :: "Match list"
  players :: "ObjectId list"
  orig_ids :: "ObjectId list"

record PendingTournament =
  id_PT :: ObjectId
  name_PT :: string
  type_PT :: string
  date_PT :: "DateTime option"
  regions_PT :: "string list"
  url_PT :: "string option"
  raw_PT :: "string option"
  matches_PT :: "AliasMatch list"
  players_PT :: "string list"
  alias_to_id_map :: "AliasMapping list option"

section \<open>Match query helpers\<close>

definition contains_players :: "Match \<Rightarrow> ObjectId \<Rightarrow> ObjectId \<Rightarrow> bool" where
  "contains_players self player1 player2 =
     ((winner self = player1 \<and> loser self = player2) \<or>
      (winner self = player2 \<and> loser self = player1))"

definition contains_player :: "Match \<Rightarrow> ObjectId \<Rightarrow> bool" where
  "contains_player self pid = (winner self = pid \<or> loser self = pid)"

definition did_player_win :: "Match \<Rightarrow> ObjectId \<Rightarrow> bool" where
  "did_player_win self pid = (winner self = pid)"

text \<open>\<^verbatim>\<open>get_opposing_player_id\<close> returns an id or Python's \<^verbatim>\<open>None\<close>: an \<open>option\<close>.\<close>

definition get_opposing_player_id :: "Match \<Rightarrow> ObjectId \<Rightarrow> ObjectId option" where
  "get_opposing_player_id self pid =
     (if winner self = pid then Some (loser self)
      else if loser self = pid then Some (winner self)
      else None)"

section \<open>Rating\<close>

text \<open>The two conversions pass \<^verbatim>\<open>mu\<close> and \<^verbatim>\<open>sigma\<close> to the constructor of the other
  side; both values are floats already, so the type validation of the mapper's float
  fields accepts them.\<close>

definition trueskill_rating :: "Rating \<Rightarrow> TrueskillRating" where
  "trueskill_rating self = \<lparr>mu_TS = mu self, sigma_TS = sigma self\<rparr>"

definition from_trueskill :: "TrueskillRating \<Rightarrow> Rating" where
  "from_trueskill ts = \<lparr>mu = mu_TS ts, sigma = sigma_TS ts\<rparr>"

section \<open>Player\<close>

text \<open>
  \<^verbatim>\<open>post_init\<close> is the hook that the mapper's constructor runs on the freshly populated
  document. \<^verbatim>\<open>not self.merge_children\<close> is Python truthiness: it holds for \<^verbatim>\<open>None\<close>
  and for the empty list.
\<close>

definition post_init :: "Player \<Rightarrow> Player" where
  "post_init self =
     (if merge_children self = None \<or> merge_children self = Some []
      then self\<lparr>merge_children := Some [id_P self]\<rparr>
      else self)"

section \<open>Tournament\<close>

text \<open>
  \<^verbatim>\<open>replace_player\<close> mutates the tournament in place and may raise, so the model returns
  the tournament as the call leaves it together with the outcome: \<open>Inl\<close> the exception,
  \<open>Inr ()\<close> a normal return. Both arguments default to \<^verbatim>\<open>None\<close>, hence the \<open>option\<close>s.
  The warning printed on the no-op path goes to standard output and is not part of the
  tournament.

  The body of the loop over \<^verbatim>\<open>self.matches\<close> is two independent \<^verbatim>\<open>if\<close> statements on
  one match object.
\<close>

definition replace_in_match :: "ObjectId \<Rightarrow> ObjectId \<Rightarrow> Match \<Rightarrow> Match" where
  "replace_in_match player_to_remove_id player_to_add_id m =
     (let m1 = (if winner m = player_to_remove_id
                then m\<lparr>winner := player_to_add_id\<rparr> else m)
      in if loser m1 = player_to_remove_id
         then m1\<lparr>loser := player_to_add_id\<rparr> else m1)"

definition replace_player ::
  "Tournament \<Rightarrow> Player option \<Rightarrow> Player option \<Rightarrow> Tournament \<times> (error + unit)" where
  "replace_player self player_to_remove player_to_add =
     (if player_to_remove = None \<or> player_to_add = None then (self, Inl TypeError)
      else
        let player_to_remove_id = id_P (the player_to_remove);
            player_to_add_id = id_P (the player_to_add)
        in if player_to_remove_id \<notin> set (players self) then (self, Inr ())
           else
             (self\<lparr>players := remove1 player_to_remove_id (players self) @ [player_to_add_id],
                   matches := map (replace_in_match player_to_remove_id player_to_add_id)
                                  (matches self)\<rparr>,
              Inr ()))"

text \<open>
  \<^verbatim>\<open>from_pending_tournament\<close> first builds a dictionary from the entries of the pending
  tournament's \<^verbatim>\<open>alias_to_id_map\<close> whose \<^verbatim>\<open>player_id\<close> is not \<^verbatim>\<open>None\<close>; \<^verbatim>\<open>dict\<close> inserts
  the pairs in list order, a later pair replacing an earlier one with the same key.
  Iterating a \<^verbatim>\<open>None\<close> mapping list raises \<^verbatim>\<open>TypeError\<close>.
\<close>

definition build_alias_to_id_map :: "AliasMapping list \<Rightarrow> (string \<rightharpoonup> ObjectId)" where
  "build_alias_to_id_map entries =
     fold (\<lambda>entry d. case player_id entry of
                        None \<Rightarrow> d
                      | Some i \<Rightarrow> d(player_alias entry \<mapsto> i))
          entries Map.empty"

definition get_player_id_from_map_or_throw ::
  "(string \<rightharpoonup> ObjectId) \<Rightarrow> string \<Rightarrow> error + ObjectId" where
  "get_player_id_from_map_or_throw d alias =
     (case d alias of Some i \<Rightarrow> Inr i | None \<Rightarrow> Inl (ValueError alias))"

text \<open>The list comprehension over the pending players: it stops at the first alias that
  raises.\<close>

fun resolve_players :: "(string \<rightharpoonup> ObjectId) \<Rightarrow> string list \<Rightarrow> error + ObjectId list" where
  "resolve_players d [] = Inr []"
| "resolve_players d (p # ps) =
     (case get_player_id_from_map_or_throw d p of
        Inl e \<Rightarrow> Inl e
      | Inr i \<Rightarrow>
          (case resolve_players d ps of
             Inl e \<Rightarrow> Inl e
           | Inr ids \<Rightarrow> Inr (i # ids)))"

text \<open>The loop over the pending matches: the winner is resolved before the loser.\<close>

fun resolve_matches :: "(string \<rightharpoonup> ObjectId) \<Rightarrow> AliasMatch list \<Rightarrow> error + Match list" where
  "resolve_matches d [] = Inr []"
| "resolve_matches d (am # ams) =
     (case get_player_id_from_map_or_throw d (winner_AM am) of
        Inl e \<Rightarrow> Inl e
      | Inr w \<Rightarrow>
          (case get_player_id_from_map_or_throw d (loser_AM am) of
             Inl e \<Rightarrow> Inl e
           | Inr l \<Rightarrow>
               (case resolve_matches d ams of
                  Inl e \<Rightarrow> Inl e
                | Inr ms \<Rightarrow> Inr (\<lparr>winner = w, loser = l\<rparr> # ms))))"

text \<open>Modelled from the spec: the constructor of the \<^verbatim>\<open>Tournament\<close> document, which the
  mapper provides and which is not among the sources. By section 7 of the specification a
  missing required field or an invalid choice value is ``raised at document
  construction/assignment, always surfaced to the caller''. The required fields
  (\<^verbatim>\<open>id\<close>, \<^verbatim>\<open>name\<close>, \<^verbatim>\<open>type\<close>) are present by their types here; \<^verbatim>\<open>type\<close> carries
  the validator \<^verbatim>\<open>validate_choices(SOURCE_TYPE_CHOICES)\<close> (lines 103 to 105 of the source),
  which the \<^verbatim>\<open>type\<close> field of a pending tournament does not.\<close>

definition Tournament_init :: "Tournament \<Rightarrow> error + Tournament" where
  "Tournament_init doc =
     (if validate_choices SOURCE_TYPE_CHOICES (type_T doc) then Inr doc
      else Inl ValidationError)"

text \<open>The conversion resolves the players, then the matches, and calls the constructor
  last.\<close>

definition from_pending_tournament :: "PendingTournament \<Rightarrow> error + Tournament" where
  "from_pending_tournament pending_tournament =
     (case alias_to_id_map pending_tournament of
        None \<Rightarrow> Inl TypeError
      | Some entries \<Rightarrow>
          let d = build_alias_to_id_map entries in
          (case resolve_players d (players_PT pending_tournament) of
             Inl e \<Rightarrow> Inl e
           | Inr ps \<Rightarrow>
               (case resolve_matches d (matches_PT pending_tournament) of
                  Inl e \<Rightarrow> Inl e
                | Inr ms \<Rightarrow>
                    Tournament_init
                      \<lparr>id_T = id_PT pending_tournament,
                       name_T = name_PT pending_tournament,
                       type_T = type_PT pending_tournament,
                       date_T = date_PT pending_tournament,
                       regions_T = regions_PT pending_tournament,
                       url_T = url_PT pending_tournament,
                       raw_T = raw_PT pending_tournament,
                       matches = ms,
                       players = ps,
                       orig_ids = ps\<rparr>)))"

section \<open>PendingTournament\<close>

text \<open>
  Both maintenance methods start by replacing a \<^verbatim>\<open>None\<close> mapping list by the empty list.
\<close>

definition init_alias_to_id_map :: "PendingTournament \<Rightarrow> PendingTournament" where
  "init_alias_to_id_map self =
     (if alias_to_id_map self = None then self\<lparr>alias_to_id_map := Some []\<rparr> else self)"

text \<open>The list the loops of the two methods then iterate.\<close>

definition mappings :: "PendingTournament \<Rightarrow> AliasMapping list" where
  "mappings self = (case alias_to_id_map self of None \<Rightarrow> [] | Some ms \<Rightarrow> ms)"

text \<open>
  The loop of \<^verbatim>\<open>set_alias_id_mapping\<close>: the first mapping with the alias is updated in
  place and the method returns; \<open>None\<close> says the loop ran to its end without a hit.
\<close>

fun overwrite_mapping ::
  "string \<Rightarrow> ObjectId option \<Rightarrow> AliasMapping list \<Rightarrow> AliasMapping list option" where
  "overwrite_mapping alias i [] = None"
| "overwrite_mapping alias i (mapping # rest) =
     (if player_alias mapping = alias
      then Some (mapping\<lparr>player_alias := alias, player_id := i\<rparr> # rest)
      else map_option ((#) mapping) (overwrite_mapping alias i rest))"

definition set_alias_id_mapping ::
  "PendingTournament \<Rightarrow> string \<Rightarrow> ObjectId option \<Rightarrow> PendingTournament" where
  "set_alias_id_mapping self alias i =
     (let self1 = init_alias_to_id_map self in
      case overwrite_mapping alias i (mappings self1) of
        Some ms \<Rightarrow> self1\<lparr>alias_to_id_map := Some ms\<rparr>
      | None \<Rightarrow>
          self1\<lparr>alias_to_id_map :=
                  Some (mappings self1 @ [\<lparr>player_id = i, player_alias = alias\<rparr>])\<rparr>)"

text \<open>
  \<^verbatim>\<open>delete_alias_id_mapping\<close> returns the mapping it removed, or falls off the end of the
  method and returns \<^verbatim>\<open>None\<close>. \<^verbatim>\<open>list.remove\<close> deletes the first element equal to its
  argument: \<open>remove1\<close>.
\<close>

definition delete_alias_id_mapping ::
  "PendingTournament \<Rightarrow> string \<Rightarrow> PendingTournament \<times> AliasMapping option" where
  "delete_alias_id_mapping self alias =
     (let self1 = init_alias_to_id_map self in
      case find (\<lambda>mapping. player_alias mapping = alias) (mappings self1) of
        Some mapping \<Rightarrow>
          (self1\<lparr>alias_to_id_map := Some (remove1 mapping (mappings self1))\<rparr>, Some mapping)
      | None \<Rightarrow> (self1, None))"

section \<open>Concrete documents\<close>

text \<open>Inputs on which the definitions above are evaluated below.\<close>

definition player_A :: Player where
  "player_A =
     \<lparr>id_P = 1, name_P = ''A'', aliases = [''a''], ratings = Map.empty,
      regions_P = [''norcal''],
      merged = False, merge_parent = None, merge_children = Some [1]\<rparr>"

definition player_D :: Player where
  "player_D =
     \<lparr>id_P = 4, name_P = ''D'', aliases = [''d''], ratings = Map.empty,
      regions_P = [''norcal''],
      merged = False, merge_parent = None, merge_children = Some [4]\<rparr>"

text \<open>A player document whose stored children list holds another player's id only.\<close>

definition foreign_children_player :: Player where
  "foreign_children_player =
     \<lparr>id_P = 1, name_P = ''A'', aliases = [''a''], ratings = Map.empty,
      regions_P = [''norcal''],
      merged = False, merge_parent = None, merge_children = Some [2]\<rparr>"

text \<open>The tournament of the specification's example: players A, B, C are 1, 2, 3 and
  D is 4; A beat B.\<close>

definition example_tournament :: Tournament where
  "example_tournament =
     \<lparr>id_T = 9, name_T = ''weekly'', type_T = ''tio'', date_T = None,
      regions_T = [''norcal''], url_T = None, raw_T = None,
      matches = [\<lparr>winner = 1, loser = 2\<rparr>], players = [1, 2, 3], orig_ids = [1, 2, 3]\<rparr>"

text \<open>A pending tournament whose only alias has a mapping entry, but no id yet.\<close>

definition unresolved_pending :: PendingTournament where
  "unresolved_pending =
     \<lparr>id_PT = 7, name_PT = ''weekly'', type_PT = ''tio'', date_PT = None,
      regions_PT = [''norcal''], url_PT = None, raw_PT = None,
      matches_PT = [], players_PT = [''a''],
      alias_to_id_map = Some [\<lparr>player_id = None, player_alias = ''a''\<rparr>]\<rparr>"

definition resolved_pending :: PendingTournament where
  "resolved_pending =
     \<lparr>id_PT = 7, name_PT = ''weekly'', type_PT = ''tio'', date_PT = None,
      regions_PT = [''norcal''], url_PT = None, raw_PT = None,
      matches_PT = [\<lparr>winner_AM = ''b'', loser_AM = ''a''\<rparr>], players_PT = [''a'', ''b''],
      alias_to_id_map = Some [\<lparr>player_id = Some 1, player_alias = ''a''\<rparr>,
                              \<lparr>player_id = None, player_alias = ''c''\<rparr>,
                              \<lparr>player_id = Some 2, player_alias = ''b''\<rparr>]\<rparr>"

text \<open>The same pending tournament with a source type that is none of the choices; a
  pending tournament accepts any type.\<close>

definition bogus_type_pending :: PendingTournament where
  "bogus_type_pending =
     \<lparr>id_PT = 7, name_PT = ''weekly'', type_PT = ''bogus'', date_PT = None,
      regions_PT = [''norcal''], url_PT = None, raw_PT = None,
      matches_PT = [\<lparr>winner_AM = ''b'', loser_AM = ''a''\<rparr>], players_PT = [''a'', ''b''],
      alias_to_id_map = Some [\<lparr>player_id = Some 1, player_alias = ''a''\<rparr>,
                              \<lparr>player_id = None, player_alias = ''c''\<rparr>,
                              \<lparr>player_id = Some 2, player_alias = ''b''\<rparr>]\<rparr>"

text \<open>A pending tournament as the scraper leaves it, with no mapping list, and one whose
  list holds two entries for the same alias.\<close>

definition fresh_pending :: PendingTournament where
  "fresh_pending =
     \<lparr>id_PT = 7, name_PT = ''weekly'', type_PT = ''tio'', date_PT = None,
      regions_PT = [''norcal''], url_PT = None, raw_PT = None,
      matches_PT = [\<lparr>winner_AM = ''foo'', loser_AM = ''bar''\<rparr>],
      players_PT = [''foo'', ''bar''],
      alias_to_id_map = None\<rparr>"

definition mapped_pending :: PendingTournament where
  "mapped_pending =
     \<lparr>id_PT = 7, name_PT = ''weekly'', type_PT = ''tio'', date_PT = None,
      regions_PT = [''norcal''], url_PT = None, raw_PT = None,
      matches_PT = [\<lparr>winner_AM = ''foo'', loser_AM = ''bar''\<rparr>],
      players_PT = [''foo'', ''bar''],
      alias_to_id_map =
        Some [\<lparr>player_id = None, player_alias = ''bar''\<rparr>,
              \<lparr>player_id = Some 1, player_alias = ''foo''\<rparr>,
              \<lparr>player_id = Some 2, player_alias = ''foo''\<rparr>]\<rparr>"

section \<open>Properties\<close>

subsection \<open>Match\<close>

text \<open>
  Claim C9. For every match and every player id \<open>p\<close>, \<^verbatim>\<open>get_opposing_player_id(p)\<close>
  returns the loser's id when \<open>p\<close> is the winner, the winner's id when \<open>p\<close> is the loser,
  and \<^verbatim>\<open>None\<close> when \<open>p\<close> is neither participant.
\<close>

theorem get_opposing_player_id_cases:
  "(winner m = p \<longrightarrow> get_opposing_player_id m p = Some (loser m)) \<and>
   (loser m = p \<longrightarrow> get_opposing_player_id m p = Some (winner m)) \<and>
   (\<not> contains_player m p \<longrightarrow> get_opposing_player_id m p = None)"
  by (simp add: get_opposing_player_id_def contains_player_def)

theorem get_opposing_player_id_cases_witness:
  "get_opposing_player_id \<lparr>winner = 1, loser = 2\<rparr> 1 = Some 2 \<and>
   get_opposing_player_id \<lparr>winner = 1, loser = 2\<rparr> 2 = Some 1 \<and>
   get_opposing_player_id \<lparr>winner = 1, loser = 2\<rparr> 3 = None"
  using get_opposing_player_id_cases [of "\<lparr>winner = 1, loser = 2\<rparr>" 1]
    get_opposing_player_id_cases [of "\<lparr>winner = 1, loser = 2\<rparr>" 2]
    get_opposing_player_id_cases [of "\<lparr>winner = 1, loser = 2\<rparr>" 3]
  by (simp add: contains_player_def)

subsection \<open>Rating\<close>

text \<open>
  Claim C8. For every rating object of the rating library, converting it to a stored
  rating with \<^verbatim>\<open>from_trueskill\<close> and back with \<^verbatim>\<open>trueskill_rating\<close> reproduces the
  original \<^verbatim>\<open>mu\<close> and \<^verbatim>\<open>sigma\<close> exactly: both conversions copy the two values and
  compute nothing, so the stored rating holds them and the object built from it is the
  original one.
\<close>

theorem rating_round_trip:
  "mu (from_trueskill ts) = mu_TS ts \<and>
   sigma (from_trueskill ts) = sigma_TS ts \<and>
   mu_TS (trueskill_rating (from_trueskill ts)) = mu_TS ts \<and>
   sigma_TS (trueskill_rating (from_trueskill ts)) = sigma_TS ts \<and>
   trueskill_rating (from_trueskill ts) = ts"
  by (simp add: trueskill_rating_def from_trueskill_def)

subsection \<open>Player\<close>

lemma post_init_id: "id_P (post_init p) = id_P p"
  by (simp add: post_init_def)

text \<open>When no children list was given, or an empty one, the hook stores the player's own
  id as the only child.\<close>

lemma post_init_default:
  "merge_children p = None \<or> merge_children p = Some [] \<Longrightarrow>
     merge_children (post_init p) = Some [id_P p]"
  by (auto simp: post_init_def)

text \<open>
  Claim C7. For every player, immediately after construction the player's own id is a
  member of \<^verbatim>\<open>merge_children\<close>. The comment in \<^verbatim>\<open>post_init\<close> announces this
  (``initialize merge\_children to contain id if it does not already''), but the test is
  on emptiness only: a non-empty list without the player's id is left as it is. The
  theorem evaluates \<^verbatim>\<open>post_init\<close> on such a document: the id is 1 and the children
  list stays \<open>[2]\<close>.
\<close>

theorem post_init_foreign_children:
  "id_P (post_init foreign_children_player) = 1 \<and>
   merge_children (post_init foreign_children_player) = Some [2]"
  by (simp add: post_init_def foreign_children_player_def)

subsection \<open>Tournament.replace\_player\<close>

lemma replace_in_match_fields:
  "winner (replace_in_match r a m) = (if winner m = r then a else winner m)"
  "loser (replace_in_match r a m) = (if loser m = r then a else loser m)"
  by (simp_all add: replace_in_match_def Let_def)

text \<open>
  Claim C10. For every tournament, \<^verbatim>\<open>replace_player\<close> with \<^verbatim>\<open>player_to_remove\<close> or
  \<^verbatim>\<open>player_to_add\<close> equal to \<^verbatim>\<open>None\<close> raises \<^verbatim>\<open>TypeError\<close> before any modification:
  the tournament is left exactly as it was.
\<close>

theorem replace_player_None:
  assumes "player_to_remove = None \<or> player_to_add = None"
  shows "replace_player t player_to_remove player_to_add = (t, Inl TypeError)"
  using assms by (auto simp: replace_player_def)

theorem replace_player_None_witness:
  "replace_player example_tournament None (Some player_D) = (example_tournament, Inl TypeError) \<and>
   replace_player example_tournament (Some player_A) None = (example_tournament, Inl TypeError) \<and>
   replace_player example_tournament None None = (example_tournament, Inl TypeError)"
  using replace_player_None [of None "Some player_D" example_tournament]
    replace_player_None [of "Some player_A" None example_tournament]
    replace_player_None [of None None example_tournament]
  by simp

text \<open>
  Claim C4. For every tournament and every pair of players (neither \<^verbatim>\<open>None\<close>), if the id
  of the player to remove is not in the tournament's players list, \<^verbatim>\<open>replace_player\<close>
  returns without raising and leaves the tournament, in particular its players list and
  the winner and loser of every match, unchanged.
\<close>

theorem replace_player_absent:
  assumes "id_P pr \<notin> set (players t)"
  shows "replace_player t (Some pr) (Some pa) = (t, Inr ())"
  using assms by (simp add: replace_player_def)

theorem replace_player_absent_witness:
  "replace_player example_tournament (Some player_D) (Some player_A) =
     (example_tournament, Inr ())"
proof -
  have "id_P player_D \<notin> set (players example_tournament)"
    by (simp add: example_tournament_def player_D_def)
  then show ?thesis by (rule replace_player_absent)
qed

text \<open>
  Claim C3, as the specification states it: on the tournament with players \<open>[A, B, C]\<close>
  and the match A beat B, \<^verbatim>\<open>replace_player(A, D)\<close> yields players \<open>[D, B, C]\<close>. The code
  removes A from the list and appends D at its end, so the list is \<open>[B, C, D]\<close>; the match
  becomes D beat B as stated.
\<close>

theorem replace_player_appends:
  "players (fst (replace_player example_tournament (Some player_A) (Some player_D))) = [2, 3, 4] \<and>
   matches (fst (replace_player example_tournament (Some player_A) (Some player_D))) =
     [\<lparr>winner = 4, loser = 2\<rparr>] \<and>
   players (fst (replace_player example_tournament (Some player_A) (Some player_D))) \<noteq> [4, 2, 3]"
  by (simp add: replace_player_def example_tournament_def player_A_def player_D_def
      replace_in_match_def)

text \<open>
  Claim C3, amended. When the id of the player to remove is in the players list,
  \<^verbatim>\<open>replace_player\<close> returns normally; the first occurrence of that id is taken out of the
  players list and the id of the player to add is appended at the end (so a list without
  duplicates holds the added id in place of the removed one, as a set); the matches keep
  their number and order, and in every match a winner or loser equal to the removed id
  becomes the added id while every other winner and loser is kept. On the example the
  result is players \<open>[B, C, D]\<close> and the match D beat B.
\<close>

theorem replace_player_substitutes:
  assumes "players t = ys @ id_P pr # zs" and "id_P pr \<notin> set ys"
  shows "\<exists>t'. replace_player t (Some pr) (Some pa) = (t', Inr ()) \<and>
           players t' = ys @ zs @ [id_P pa] \<and>
           (distinct (players t) \<longrightarrow>
              set (players t') = insert (id_P pa) (set (players t) - {id_P pr})) \<and>
           length (matches t') = length (matches t) \<and>
           (\<forall>k < length (matches t).
              winner (matches t' ! k) =
                (if winner (matches t ! k) = id_P pr then id_P pa else winner (matches t ! k)) \<and>
              loser (matches t' ! k) =
                (if loser (matches t ! k) = id_P pr then id_P pa else loser (matches t ! k)))"
proof -
  have mem: "id_P pr \<in> set (players t)"
    using assms(1) by simp
  have rem: "remove1 (id_P pr) (players t) = ys @ zs"
    using assms by (simp add: remove1_append)
  have sets: "set (ys @ zs @ [id_P pa]) = insert (id_P pa) (set (players t) - {id_P pr})"
    if "distinct (players t)"
    using that assms(1) by auto
  show ?thesis
    using mem rem sets by (simp add: replace_player_def Let_def replace_in_match_fields)
qed

theorem replace_player_substitutes_witness:
  "\<exists>t'. replace_player example_tournament (Some player_A) (Some player_D) = (t', Inr ()) \<and>
     players t' = [2, 3, 4] \<and> map winner (matches t') = [4] \<and> map loser (matches t') = [2]"
proof -
  have p: "players example_tournament = [] @ id_P player_A # [2, 3]"
    by (simp add: example_tournament_def player_A_def)
  have n: "id_P player_A \<notin> set []"
    by simp
  from replace_player_substitutes [OF p n, of player_D]
  obtain t' where t':
    "replace_player example_tournament (Some player_A) (Some player_D) = (t', Inr ())"
    "players t' = [] @ [2, 3] @ [id_P player_D]"
    "length (matches t') = length (matches example_tournament)"
    "\<forall>k < length (matches example_tournament).
       winner (matches t' ! k) =
         (if winner (matches example_tournament ! k) = id_P player_A then id_P player_D
          else winner (matches example_tournament ! k)) \<and>
       loser (matches t' ! k) =
         (if loser (matches example_tournament ! k) = id_P player_A then id_P player_D
          else loser (matches example_tournament ! k))"
    by blast
  from t'(3) obtain m where m: "matches t' = [m]"
    by (cases "matches t'") (auto simp: example_tournament_def)
  from t'(4) m have "winner m = 4 \<and> loser m = 2"
    by (simp add: example_tournament_def player_A_def player_D_def)
  with t'(1,2) m show ?thesis
    by (simp add: player_D_def)
qed

subsection \<open>Tournament.from\_pending\_tournament\<close>

text \<open>The dictionary: appending an entry to the list is one more insertion.\<close>

lemma build_snoc:
  "build_alias_to_id_map (es @ [e]) =
     (case player_id e of
        None \<Rightarrow> build_alias_to_id_map es
      | Some i \<Rightarrow> (build_alias_to_id_map es)(player_alias e \<mapsto> i))"
  by (simp add: build_alias_to_id_map_def split: option.splits)

text \<open>An alias is a key of the dictionary exactly when some entry of the list carries it
  together with an id.\<close>

lemma build_None_iff:
  "build_alias_to_id_map es a = None \<longleftrightarrow>
     \<not> (\<exists>e\<in>set es. player_alias e = a \<and> player_id e \<noteq> None)"
proof (induction es rule: rev_induct)
  case Nil
  show ?case by (simp add: build_alias_to_id_map_def)
next
  case (snoc e es)
  then show ?case by (auto simp: build_snoc split: option.splits)
qed

lemma build_Some_entry:
  "build_alias_to_id_map es a = Some i \<Longrightarrow>
     \<exists>e\<in>set es. player_alias e = a \<and> player_id e = Some i"
proof (induction es arbitrary: i rule: rev_induct)
  case Nil
  then show ?case by (simp add: build_alias_to_id_map_def)
next
  case (snoc e es)
  then show ?case by (auto simp: build_snoc split: option.splits if_splits)
qed

text \<open>The value of a key is the id of the last entry that carries the alias and an id.\<close>

lemma build_last_entry:
  assumes "player_alias e = a" and "player_id e = Some i"
    and "\<forall>y\<in>set ys. player_alias y = a \<longrightarrow> player_id y = None"
  shows "build_alias_to_id_map (xs @ e # ys) a = Some i"
  using assms(3)
proof (induction ys rule: rev_induct)
  case Nil
  show ?case using assms(1,2) by (simp add: build_snoc)
next
  case (snoc y ys)
  then have "build_alias_to_id_map (xs @ e # ys) a = Some i"
    by simp
  moreover have "player_alias y = a \<longrightarrow> player_id y = None"
    using snoc.prems by simp
  ultimately show ?case
    using build_snoc [of "xs @ e # ys" y] by (auto split: option.splits)
qed

lemma resolve_players_Inl_iff:
  "(\<exists>e. resolve_players d ps = Inl e) \<longleftrightarrow> (\<exists>a\<in>set ps. d a = None)"
  by (induction ps)
    (auto simp: get_player_id_from_map_or_throw_def split: option.splits sum.splits)

lemma resolve_players_Inl:
  "resolve_players d ps = Inl e \<Longrightarrow> \<exists>a\<in>set ps. d a = None \<and> e = ValueError a"
  by (induction ps)
    (auto simp: get_player_id_from_map_or_throw_def split: option.splits sum.splits)

lemma resolve_players_Inr:
  "resolve_players d ps = Inr ids \<Longrightarrow> list_all2 (\<lambda>a i. d a = Some i) ps ids"
  by (induction ps arbitrary: ids)
    (auto simp: get_player_id_from_map_or_throw_def split: option.splits sum.splits)

lemma resolve_matches_Inl_iff:
  "(\<exists>e. resolve_matches d ams = Inl e) \<longleftrightarrow>
     (\<exists>am\<in>set ams. d (winner_AM am) = None \<or> d (loser_AM am) = None)"
  by (induction ams)
    (auto simp: get_player_id_from_map_or_throw_def split: option.splits sum.splits)

lemma resolve_matches_Inl:
  "resolve_matches d ams = Inl e \<Longrightarrow>
     \<exists>am\<in>set ams. (d (winner_AM am) = None \<and> e = ValueError (winner_AM am)) \<or>
                    (d (loser_AM am) = None \<and> e = ValueError (loser_AM am))"
  by (induction ams)
    (auto simp: get_player_id_from_map_or_throw_def split: option.splits sum.splits)

lemma resolve_matches_Inr:
  "resolve_matches d ams = Inr ms \<Longrightarrow>
     list_all2 (\<lambda>am m. d (winner_AM am) = Some (winner m) \<and> d (loser_AM am) = Some (loser m))
       ams ms"
  by (induction ams arbitrary: ms)
    (auto simp: get_player_id_from_map_or_throw_def split: option.splits sum.splits)

lemma Tournament_init_cases:
  "Tournament_init f = Inr f \<and> type_T f \<in> set SOURCE_TYPE_CHOICES \<or>
   Tournament_init f = Inl ValidationError \<and> type_T f \<notin> set SOURCE_TYPE_CHOICES"
  by (simp add: Tournament_init_def validate_choices_def)

text \<open>With a mapping list present, the conversion is the two resolution phases followed by
  the constructor.\<close>

lemma from_pending_tournament_phases:
  assumes "alias_to_id_map pt = Some es"
  shows "from_pending_tournament pt =
     (case resolve_players (build_alias_to_id_map es) (players_PT pt) of
        Inl e \<Rightarrow> Inl e
      | Inr ps \<Rightarrow>
          (case resolve_matches (build_alias_to_id_map es) (matches_PT pt) of
             Inl e \<Rightarrow> Inl e
           | Inr ms \<Rightarrow>
               Tournament_init
                 \<lparr>id_T = id_PT pt, name_T = name_PT pt, type_T = type_PT pt,
                  date_T = date_PT pt, regions_T = regions_PT pt, url_T = url_PT pt,
                  raw_T = raw_PT pt, matches = ms, players = ps, orig_ids = ps\<rparr>))"
  using assms by (simp add: from_pending_tournament_def Let_def)

text \<open>The resolution error is raised exactly when one of the two phases meets an alias
  that is no key of the dictionary.\<close>

lemma from_pending_tournament_ValueError_iff:
  assumes "alias_to_id_map pt = Some es"
  shows "(\<exists>a. from_pending_tournament pt = Inl (ValueError a)) \<longleftrightarrow>
         (\<exists>a \<in> set (players_PT pt) \<union> winner_AM ` set (matches_PT pt)
                 \<union> loser_AM ` set (matches_PT pt).
            build_alias_to_id_map es a = None)"
proof -
  let ?d = "build_alias_to_id_map es"
  let ?P = "resolve_players ?d (players_PT pt)"
  let ?M = "resolve_matches ?d (matches_PT pt)"
  have "(\<exists>a. from_pending_tournament pt = Inl (ValueError a)) \<longleftrightarrow>
        (\<exists>e. ?P = Inl e) \<or> (\<exists>e. ?M = Inl e)"
  proof (cases ?P)
    case (Inl e)
    then obtain a where "e = ValueError a"
      using resolve_players_Inl [of ?d "players_PT pt" e] by blast
    with Inl show ?thesis
      by (simp add: from_pending_tournament_phases [OF assms])
  next
    case ps: (Inr ps)
    show ?thesis
    proof (cases ?M)
      case (Inl e)
      then obtain a where "e = ValueError a"
        using resolve_matches_Inl [of ?d "matches_PT pt" e] by blast
      with Inl ps show ?thesis
        by (simp add: from_pending_tournament_phases [OF assms])
    next
      case (Inr ms)
      with ps show ?thesis
        by (simp add: from_pending_tournament_phases [OF assms] Tournament_init_def)
    qed
  qed
  then show ?thesis
    unfolding resolve_players_Inl_iff resolve_matches_Inl_iff by blast
qed

lemma from_pending_tournament_ValueError:
  assumes "alias_to_id_map pt = Some es" and "from_pending_tournament pt = Inl (ValueError a)"
  shows "a \<in> set (players_PT pt) \<union> winner_AM ` set (matches_PT pt)
             \<union> loser_AM ` set (matches_PT pt) \<and>
         build_alias_to_id_map es a = None"
proof -
  let ?d = "build_alias_to_id_map es"
  from assms have "resolve_players ?d (players_PT pt) = Inl (ValueError a) \<or>
        resolve_matches ?d (matches_PT pt) = Inl (ValueError a)"
    by (auto simp: from_pending_tournament_phases Tournament_init_def
        split: sum.splits if_splits)
  then show ?thesis
    using resolve_players_Inl [of ?d "players_PT pt" "ValueError a"]
      resolve_matches_Inl [of ?d "matches_PT pt" "ValueError a"] by auto
qed

text \<open>When both phases succeed, the outcome is the constructor's.\<close>

lemma from_pending_tournament_resolved:
  assumes "alias_to_id_map pt = Some es"
    and "\<forall>a \<in> set (players_PT pt) \<union> winner_AM ` set (matches_PT pt)
                \<union> loser_AM ` set (matches_PT pt).
           build_alias_to_id_map es a \<noteq> None"
  shows "\<exists>ps ms. resolve_players (build_alias_to_id_map es) (players_PT pt) = Inr ps \<and>
           resolve_matches (build_alias_to_id_map es) (matches_PT pt) = Inr ms \<and>
           from_pending_tournament pt =
             Tournament_init
               \<lparr>id_T = id_PT pt, name_T = name_PT pt, type_T = type_PT pt,
                date_T = date_PT pt, regions_T = regions_PT pt, url_T = url_PT pt,
                raw_T = raw_PT pt, matches = ms, players = ps, orig_ids = ps\<rparr>"
proof -
  let ?d = "build_alias_to_id_map es"
  have "\<not> (\<exists>e. resolve_players ?d (players_PT pt) = Inl e)"
    unfolding resolve_players_Inl_iff using assms(2) by blast
  then obtain ps where ps: "resolve_players ?d (players_PT pt) = Inr ps"
    by (cases "resolve_players ?d (players_PT pt)") auto
  have "\<not> (\<exists>e. resolve_matches ?d (matches_PT pt) = Inl e)"
    unfolding resolve_matches_Inl_iff using assms(2) by blast
  then obtain ms where ms: "resolve_matches ?d (matches_PT pt) = Inr ms"
    by (cases "resolve_matches ?d (matches_PT pt)") auto
  show ?thesis
    using ps ms by (simp add: from_pending_tournament_phases [OF assms(1)])
qed

lemma from_pending_tournament_Inl_iff:
  assumes "alias_to_id_map pt = Some es"
  shows "(\<exists>e. from_pending_tournament pt = Inl e) \<longleftrightarrow>
         (\<exists>a \<in> set (players_PT pt) \<union> winner_AM ` set (matches_PT pt)
                 \<union> loser_AM ` set (matches_PT pt).
            build_alias_to_id_map es a = None) \<or>
         type_PT pt \<notin> set SOURCE_TYPE_CHOICES"
proof (cases "\<exists>a \<in> set (players_PT pt) \<union> winner_AM ` set (matches_PT pt)
                 \<union> loser_AM ` set (matches_PT pt).
            build_alias_to_id_map es a = None")
  case True
  then show ?thesis
    using from_pending_tournament_ValueError_iff [OF assms] by blast
next
  case False
  then have "\<forall>a \<in> set (players_PT pt) \<union> winner_AM ` set (matches_PT pt)
                \<union> loser_AM ` set (matches_PT pt).
           build_alias_to_id_map es a \<noteq> None"
    by auto
  from from_pending_tournament_resolved [OF assms this]
  obtain ps ms where "from_pending_tournament pt =
             Tournament_init
               \<lparr>id_T = id_PT pt, name_T = name_PT pt, type_T = type_PT pt,
                date_T = date_PT pt, regions_T = regions_PT pt, url_T = url_PT pt,
                raw_T = raw_PT pt, matches = ms, players = ps, orig_ids = ps\<rparr>"
    by blast
  with False show ?thesis
    by (simp add: Tournament_init_def validate_choices_def)
qed

lemma from_pending_tournament_Inl:
  assumes "alias_to_id_map pt = Some es" and "from_pending_tournament pt = Inl e"
  shows "(\<exists>a. e = ValueError a) \<or> e = ValidationError"
  using assms
  by (auto simp: from_pending_tournament_phases Tournament_init_def
      split: sum.splits if_splits dest: resolve_players_Inl resolve_matches_Inl)

lemma from_pending_tournament_Inr:
  assumes "alias_to_id_map pt = Some es" and "from_pending_tournament pt = Inr t"
  shows "resolve_players (build_alias_to_id_map es) (players_PT pt) = Inr (players t)"
    and "resolve_matches (build_alias_to_id_map es) (matches_PT pt) = Inr (matches t)"
    and "orig_ids t = players t"
    and "type_T t = type_PT pt"
  using assms
  by (auto simp: from_pending_tournament_phases Tournament_init_def
      split: sum.splits if_splits)

text \<open>
  Claim C1, as the specification states it: the conversion fails if and only if some alias
  of the pending tournament has no entry in \<^verbatim>\<open>alias_to_id_map\<close>. On
  \<open>unresolved_pending\<close> the only alias, \<open>''a''\<close>, has an entry in the mapping list, and
  the conversion raises \<^verbatim>\<open>ValueError\<close> all the same: the entry has no id, and entries
  without an id are left out of the dictionary.
\<close>

theorem from_pending_tournament_entry_without_id:
  "from_pending_tournament unresolved_pending = Inl (ValueError ''a'') \<and>
   players_PT unresolved_pending = [''a''] \<and>
   matches_PT unresolved_pending = [] \<and>
   alias_to_id_map unresolved_pending = Some [\<lparr>player_id = None, player_alias = ''a''\<rparr>] \<and>
   ''a'' \<in> set (map player_alias [\<lparr>player_id = None, player_alias = ''a''\<rparr>])"
  by (simp add: from_pending_tournament_def unresolved_pending_def build_alias_to_id_map_def
      get_player_id_from_map_or_throw_def)

text \<open>
  Claim C1, amended. For every pending tournament whose mapping list is present,
  \<^verbatim>\<open>from_pending_tournament\<close> fails with the resolution error (\<^verbatim>\<open>ValueError\<close>) if and only
  if at least one alias in the players list or in some match's winner or loser has no
  entry with an assigned id in \<^verbatim>\<open>alias_to_id_map\<close>, and the error then names such an
  alias. The only other failure is the constructor's refusal of a type that is none of
  the source type choices, once every alias has been resolved. When the conversion fails
  no tournament is produced.
\<close>

theorem from_pending_tournament_fails_iff:
  assumes "alias_to_id_map pt = Some es"
  shows "((\<exists>a. from_pending_tournament pt = Inl (ValueError a)) \<longleftrightarrow>
           (\<exists>a \<in> set (players_PT pt) \<union> winner_AM ` set (matches_PT pt)
                   \<union> loser_AM ` set (matches_PT pt).
              \<not> (\<exists>m\<in>set es. player_alias m = a \<and> player_id m \<noteq> None))) \<and>
         (\<forall>a. from_pending_tournament pt = Inl (ValueError a) \<longrightarrow>
              a \<in> set (players_PT pt) \<union> winner_AM ` set (matches_PT pt)
                   \<union> loser_AM ` set (matches_PT pt) \<and>
              \<not> (\<exists>m\<in>set es. player_alias m = a \<and> player_id m \<noteq> None)) \<and>
         ((\<exists>e. from_pending_tournament pt = Inl e) \<longleftrightarrow>
            (\<exists>a \<in> set (players_PT pt) \<union> winner_AM ` set (matches_PT pt)
                    \<union> loser_AM ` set (matches_PT pt).
               \<not> (\<exists>m\<in>set es. player_alias m = a \<and> player_id m \<noteq> None)) \<or>
            type_PT pt \<notin> set SOURCE_TYPE_CHOICES) \<and>
         (\<forall>e. from_pending_tournament pt = Inl e \<longrightarrow>
              (\<exists>a. e = ValueError a) \<or> e = ValidationError) \<and>
         ((\<exists>e. from_pending_tournament pt = Inl e) \<longleftrightarrow>
            \<not> (\<exists>t. from_pending_tournament pt = Inr t))"
proof (intro conjI allI impI)
  show "(\<exists>a. from_pending_tournament pt = Inl (ValueError a)) \<longleftrightarrow>
           (\<exists>a \<in> set (players_PT pt) \<union> winner_AM ` set (matches_PT pt)
                   \<union> loser_AM ` set (matches_PT pt).
              \<not> (\<exists>m\<in>set es. player_alias m = a \<and> player_id m \<noteq> None))"
    unfolding from_pending_tournament_ValueError_iff [OF assms] build_None_iff ..
next
  fix a assume a: "from_pending_tournament pt = Inl (ValueError a)"
  show "a \<in> set (players_PT pt) \<union> winner_AM ` set (matches_PT pt)
             \<union> loser_AM ` set (matches_PT pt)"
    using from_pending_tournament_ValueError [OF assms a] by blast
  show "\<not> (\<exists>m\<in>set es. player_alias m = a \<and> player_id m \<noteq> None)"
    using from_pending_tournament_ValueError [OF assms a] build_None_iff [of es a] by blast
next
  show "(\<exists>e. from_pending_tournament pt = Inl e) \<longleftrightarrow>
            (\<exists>a \<in> set (players_PT pt) \<union> winner_AM ` set (matches_PT pt)
                    \<union> loser_AM ` set (matches_PT pt).
               \<not> (\<exists>m\<in>set es. player_alias m = a \<and> player_id m \<noteq> None)) \<or>
            type_PT pt \<notin> set SOURCE_TYPE_CHOICES"
    unfolding from_pending_tournament_Inl_iff [OF assms] build_None_iff ..
next
  fix e assume "from_pending_tournament pt = Inl e"
  then show "(\<exists>a. e = ValueError a) \<or> e = ValidationError"
    by (rule from_pending_tournament_Inl [OF assms])
next
  show "(\<exists>e. from_pending_tournament pt = Inl e) \<longleftrightarrow>
          \<not> (\<exists>t. from_pending_tournament pt = Inr t)"
    by (cases "from_pending_tournament pt") auto
qed

theorem from_pending_tournament_fails_iff_witness:
  "alias_to_id_map unresolved_pending = Some [\<lparr>player_id = None, player_alias = ''a''\<rparr>] \<and>
   (\<exists>a. from_pending_tournament unresolved_pending = Inl (ValueError a)) \<and>
   \<not> (\<exists>t. from_pending_tournament unresolved_pending = Inr t)"
proof -
  have m: "alias_to_id_map unresolved_pending =
             Some [\<lparr>player_id = None, player_alias = ''a''\<rparr>]"
    by (simp add: unresolved_pending_def)
  have p: "players_PT unresolved_pending = [''a'']"
    by (simp add: unresolved_pending_def)
  note spec = from_pending_tournament_fails_iff [OF m]
  have "\<exists>a \<in> set (players_PT unresolved_pending) \<union> winner_AM ` set (matches_PT unresolved_pending)
               \<union> loser_AM ` set (matches_PT unresolved_pending).
          \<not> (\<exists>m\<in>set [\<lparr>player_id = None, player_alias = ''a''\<rparr>].
                 player_alias m = a \<and> player_id m \<noteq> None)"
    using p by auto
  with spec have v: "\<exists>a. from_pending_tournament unresolved_pending = Inl (ValueError a)"
    by blast
  with spec have "\<not> (\<exists>t. from_pending_tournament unresolved_pending = Inr t)"
    by blast
  with m v show ?thesis by blast
qed

text \<open>
  Claim C2, as the specification states it: for every pending tournament whose every
  player and match alias is resolvable a tournament is returned. In
  \<open>bogus_type_pending\<close> both aliases are keys of the dictionary, yet no tournament is
  returned: the constructor refuses the type, which is none of the source type choices.
\<close>

theorem from_pending_tournament_rejects_type:
  "from_pending_tournament bogus_type_pending = Inl ValidationError \<and>
   players_PT bogus_type_pending = [''a'', ''b''] \<and>
   matches_PT bogus_type_pending = [\<lparr>winner_AM = ''b'', loser_AM = ''a''\<rparr>] \<and>
   alias_to_id_map bogus_type_pending =
     Some [\<lparr>player_id = Some 1, player_alias = ''a''\<rparr>,
           \<lparr>player_id = None, player_alias = ''c''\<rparr>,
           \<lparr>player_id = Some 2, player_alias = ''b''\<rparr>] \<and>
   build_alias_to_id_map [\<lparr>player_id = Some 1, player_alias = ''a''\<rparr>,
           \<lparr>player_id = None, player_alias = ''c''\<rparr>,
           \<lparr>player_id = Some 2, player_alias = ''b''\<rparr>] ''a'' = Some 1 \<and>
   build_alias_to_id_map [\<lparr>player_id = Some 1, player_alias = ''a''\<rparr>,
           \<lparr>player_id = None, player_alias = ''c''\<rparr>,
           \<lparr>player_id = Some 2, player_alias = ''b''\<rparr>] ''b'' = Some 2 \<and>
   type_PT bogus_type_pending = ''bogus''"
  by (simp add: from_pending_tournament_def bogus_type_pending_def build_alias_to_id_map_def
      get_player_id_from_map_or_throw_def Tournament_init_def validate_choices_def
      SOURCE_TYPE_CHOICES_def)

text \<open>
  Claim C2, amended. For every pending tournament whose type is one of the source type
  choices and whose every player and match alias is resolvable (the mapping list is
  present and holds, for each alias, an entry with an assigned id),
  \<^verbatim>\<open>from_pending_tournament\<close> returns a tournament whose players list has the length and
  order of the pending players list, each alias mapped through the dictionary built from
  the entries with an assigned id, so each id is the id of an entry for that alias; and
  \<^verbatim>\<open>orig_ids\<close> is that same list.
\<close>

theorem from_pending_tournament_resolves:
  assumes "alias_to_id_map pt = Some es"
    and "type_PT pt \<in> set SOURCE_TYPE_CHOICES"
    and "\<forall>a \<in> set (players_PT pt) \<union> winner_AM ` set (matches_PT pt)
                \<union> loser_AM ` set (matches_PT pt).
           \<exists>m\<in>set es. player_alias m = a \<and> player_id m \<noteq> None"
  shows "\<exists>t. from_pending_tournament pt = Inr t \<and>
           length (players t) = length (players_PT pt) \<and>
           players t = map (\<lambda>a. the (build_alias_to_id_map es a)) (players_PT pt) \<and>
           list_all2 (\<lambda>a i. \<exists>m\<in>set es. player_alias m = a \<and> player_id m = Some i)
             (players_PT pt) (players t) \<and>
           orig_ids t = players t"
proof -
  let ?d = "build_alias_to_id_map es"
  have "\<not> (\<exists>e. from_pending_tournament pt = Inl e)"
    unfolding from_pending_tournament_Inl_iff [OF assms(1)] build_None_iff
    using assms(2,3) by blast
  then obtain t where t: "from_pending_tournament pt = Inr t"
    by (cases "from_pending_tournament pt") auto
  have all: "list_all2 (\<lambda>a i. ?d a = Some i) (players_PT pt) (players t)"
    using from_pending_tournament_Inr(1) [OF assms(1) t] by (rule resolve_players_Inr)
  then have len: "length (players t) = length (players_PT pt)"
    by (simp add: list_all2_lengthD)
  have "players t = map (\<lambda>a. the (?d a)) (players_PT pt)"
    using all by (induction rule: list_all2_induct) auto
  moreover have "list_all2 (\<lambda>a i. \<exists>m\<in>set es. player_alias m = a \<and> player_id m = Some i)
             (players_PT pt) (players t)"
    using all by (rule list_all2_mono) (rule build_Some_entry)
  ultimately show ?thesis
    using t len from_pending_tournament_Inr(3) [OF assms(1) t] by blast
qed

theorem from_pending_tournament_resolves_witness:
  "\<exists>t. from_pending_tournament resolved_pending = Inr t \<and>
     players t = [1, 2] \<and> orig_ids t = [1, 2]"
proof -
  let ?es = "[\<lparr>player_id = Some 1, player_alias = ''a''\<rparr>,
              \<lparr>player_id = None, player_alias = ''c''\<rparr>,
              \<lparr>player_id = Some 2, player_alias = ''b''\<rparr>]"
  have m: "alias_to_id_map resolved_pending = Some ?es"
    by (simp add: resolved_pending_def)
  have c: "type_PT resolved_pending \<in> set SOURCE_TYPE_CHOICES"
    by (simp add: resolved_pending_def SOURCE_TYPE_CHOICES_def)
  have r: "\<forall>a \<in> set (players_PT resolved_pending) \<union> winner_AM ` set (matches_PT resolved_pending)
              \<union> loser_AM ` set (matches_PT resolved_pending).
           \<exists>m\<in>set ?es. player_alias m = a \<and> player_id m \<noteq> None"
    by (simp add: resolved_pending_def)
  from from_pending_tournament_resolves [OF m c r]
  obtain t where t: "from_pending_tournament resolved_pending = Inr t"
    "players t = map (\<lambda>a. the (build_alias_to_id_map ?es a)) (players_PT resolved_pending)"
    "orig_ids t = players t"
    by blast
  have "players t = [1, 2]"
    unfolding t(2) by (simp add: resolved_pending_def build_alias_to_id_map_def)
  with t(1,3) show ?thesis
    by simp
qed

subsection \<open>PendingTournament\<close>

lemma mappings_init [simp]: "mappings (init_alias_to_id_map self) = mappings self"
  by (simp add: init_alias_to_id_map_def mappings_def)

lemma init_update [simp]:
  "(init_alias_to_id_map self)\<lparr>alias_to_id_map := v\<rparr> = self\<lparr>alias_to_id_map := v\<rparr>"
  by (simp add: init_alias_to_id_map_def)

lemma init_eq: "init_alias_to_id_map self = self\<lparr>alias_to_id_map := Some (mappings self)\<rparr>"
  by (cases "alias_to_id_map self") (simp_all add: init_alias_to_id_map_def mappings_def)

lemma mappings_update [simp]: "mappings (self\<lparr>alias_to_id_map := Some ms\<rparr>) = ms"
  by (simp add: mappings_def)

lemma overwrite_mapping_hit:
  assumes "player_alias m = alias" and "\<forall>y\<in>set ys. player_alias y \<noteq> alias"
  shows "overwrite_mapping alias i (ys @ m # zs) = Some (ys @ m\<lparr>player_id := i\<rparr> # zs)"
  using assms by (induction ys) auto

lemma overwrite_mapping_miss:
  "\<forall>m\<in>set ms. player_alias m \<noteq> alias \<Longrightarrow> overwrite_mapping alias i ms = None"
  by (induction ms) auto

lemma overwrite_mapping_aliases:
  "overwrite_mapping alias i ms = Some ms' \<Longrightarrow> map player_alias ms' = map player_alias ms"
  by (induction ms arbitrary: ms') (auto split: if_splits)

lemma overwrite_mapping_None:
  "overwrite_mapping alias i ms = None \<Longrightarrow> alias \<notin> set (map player_alias ms)"
  by (induction ms) (auto split: if_splits)

lemma set_alias_id_mapping_hit:
  assumes "mappings self = ys @ m # zs" and "player_alias m = alias"
    and "\<forall>y\<in>set ys. player_alias y \<noteq> alias"
  shows "set_alias_id_mapping self alias i =
           self\<lparr>alias_to_id_map := Some (ys @ m\<lparr>player_id := i\<rparr> # zs)\<rparr>"
  using assms by (simp add: set_alias_id_mapping_def Let_def overwrite_mapping_hit)

lemma set_alias_id_mapping_miss:
  assumes "\<forall>m\<in>set (mappings self). player_alias m \<noteq> alias"
  shows "set_alias_id_mapping self alias i =
           self\<lparr>alias_to_id_map :=
                  Some (mappings self @ [\<lparr>player_id = i, player_alias = alias\<rparr>])\<rparr>"
  using assms by (simp add: set_alias_id_mapping_def Let_def overwrite_mapping_miss)

lemma set_alias_id_mapping_twice:
  assumes "mappings self = []"
  shows "set_alias_id_mapping (set_alias_id_mapping self alias id1) alias id2 =
           self\<lparr>alias_to_id_map := Some [\<lparr>player_id = id2, player_alias = alias\<rparr>]\<rparr>"
proof -
  have one: "set_alias_id_mapping self alias id1 =
           self\<lparr>alias_to_id_map := Some [\<lparr>player_id = id1, player_alias = alias\<rparr>]\<rparr>"
    using set_alias_id_mapping_miss [of self "alias" id1] assms by simp
  show ?thesis
    unfolding one
    using set_alias_id_mapping_hit
      [of "self\<lparr>alias_to_id_map := Some [\<lparr>player_id = id1, player_alias = alias\<rparr>]\<rparr>"
          "[]" "\<lparr>player_id = id1, player_alias = alias\<rparr>" "[]" "alias" id2]
    by simp
qed

lemma set_alias_id_mapping_distinct:
  assumes "distinct (map player_alias (mappings self))"
  shows "distinct (map player_alias (mappings (set_alias_id_mapping self alias i)))"
proof (cases "overwrite_mapping alias i (mappings self)")
  case None
  then show ?thesis
    using assms overwrite_mapping_None [OF None]
    by (simp add: set_alias_id_mapping_def Let_def)
next
  case (Some ms)
  then show ?thesis
    using assms overwrite_mapping_aliases [OF Some]
    by (simp add: set_alias_id_mapping_def Let_def)
qed

text \<open>
  Claim C5. \<^verbatim>\<open>set_alias_id_mapping(alias, id)\<close> overwrites the id of the first existing
  mapping for the alias if there is one, and leaves every other mapping as it is;
  otherwise it appends a new mapping. Starting from an empty (or absent) list, setting
  \<open>''foo''\<close> to \<open>id1\<close> and then to \<open>id2\<close> yields the single entry \<open>(''foo'', id2)\<close>. If
  the list has at most one entry per alias before the call, it still has after.
\<close>

theorem set_alias_id_mapping_upsert:
  "(\<forall>ys m zs. mappings self = ys @ m # zs \<and> player_alias m = alias \<and>
        (\<forall>y\<in>set ys. player_alias y \<noteq> alias) \<longrightarrow>
      set_alias_id_mapping self alias i =
        self\<lparr>alias_to_id_map := Some (ys @ m\<lparr>player_id := i\<rparr> # zs)\<rparr>) \<and>
   ((\<forall>m\<in>set (mappings self). player_alias m \<noteq> alias) \<longrightarrow>
      set_alias_id_mapping self alias i =
        self\<lparr>alias_to_id_map :=
               Some (mappings self @ [\<lparr>player_id = i, player_alias = alias\<rparr>])\<rparr>) \<and>
   (mappings self = [] \<longrightarrow>
      set_alias_id_mapping (set_alias_id_mapping self ''foo'' id1) ''foo'' id2 =
        self\<lparr>alias_to_id_map := Some [\<lparr>player_id = id2, player_alias = ''foo''\<rparr>]\<rparr>) \<and>
   (distinct (map player_alias (mappings self)) \<longrightarrow>
      distinct (map player_alias (mappings (set_alias_id_mapping self alias i))))"
  using set_alias_id_mapping_hit [of self _ _ _ "alias" i]
    set_alias_id_mapping_miss [of self "alias" i]
    set_alias_id_mapping_twice [of self "''foo''" id1 id2]
    set_alias_id_mapping_distinct [of self "alias" i]
  by blast

theorem set_alias_id_mapping_upsert_witness:
  "set_alias_id_mapping (set_alias_id_mapping fresh_pending ''foo'' (Some 1)) ''foo'' (Some 2) =
     fresh_pending\<lparr>alias_to_id_map := Some [\<lparr>player_id = Some 2, player_alias = ''foo''\<rparr>]\<rparr> \<and>
   set_alias_id_mapping mapped_pending ''foo'' (Some 5) =
     mapped_pending\<lparr>alias_to_id_map :=
        Some [\<lparr>player_id = None, player_alias = ''bar''\<rparr>,
              \<lparr>player_id = Some 5, player_alias = ''foo''\<rparr>,
              \<lparr>player_id = Some 2, player_alias = ''foo''\<rparr>]\<rparr> \<and>
   set_alias_id_mapping mapped_pending ''baz'' (Some 5) =
     mapped_pending\<lparr>alias_to_id_map :=
        Some [\<lparr>player_id = None, player_alias = ''bar''\<rparr>,
              \<lparr>player_id = Some 1, player_alias = ''foo''\<rparr>,
              \<lparr>player_id = Some 2, player_alias = ''foo''\<rparr>,
              \<lparr>player_id = Some 5, player_alias = ''baz''\<rparr>]\<rparr>"
proof -
  have fresh: "mappings fresh_pending = []"
    by (simp add: mappings_def fresh_pending_def)
  have mapped: "mappings mapped_pending =
      [\<lparr>player_id = None, player_alias = ''bar''\<rparr>] @
      \<lparr>player_id = Some 1, player_alias = ''foo''\<rparr> #
      [\<lparr>player_id = Some 2, player_alias = ''foo''\<rparr>]"
    by (simp add: mappings_def mapped_pending_def)
  have twice: "set_alias_id_mapping (set_alias_id_mapping fresh_pending ''foo'' (Some 1)) ''foo'' (Some 2) =
     fresh_pending\<lparr>alias_to_id_map := Some [\<lparr>player_id = Some 2, player_alias = ''foo''\<rparr>]\<rparr>"
    using set_alias_id_mapping_upsert [of fresh_pending "''foo''" "Some 2" "Some 1" "Some 2"] fresh
    by blast
  have hit: "set_alias_id_mapping mapped_pending ''foo'' (Some 5) =
     mapped_pending\<lparr>alias_to_id_map :=
        Some ([\<lparr>player_id = None, player_alias = ''bar''\<rparr>] @
              \<lparr>player_id = Some 1, player_alias = ''foo''\<rparr>\<lparr>player_id := Some 5\<rparr> #
              [\<lparr>player_id = Some 2, player_alias = ''foo''\<rparr>])\<rparr>"
  proof -
    from set_alias_id_mapping_upsert [of mapped_pending "''foo''" "Some 5"]
    have "mappings mapped_pending =
            [\<lparr>player_id = None, player_alias = ''bar''\<rparr>] @
            \<lparr>player_id = Some 1, player_alias = ''foo''\<rparr> #
            [\<lparr>player_id = Some 2, player_alias = ''foo''\<rparr>] \<and>
          player_alias \<lparr>player_id = Some 1, player_alias = ''foo''\<rparr> = ''foo'' \<and>
          (\<forall>y\<in>set [\<lparr>player_id = None, player_alias = ''bar''\<rparr>]. player_alias y \<noteq> ''foo'') \<longrightarrow>
          set_alias_id_mapping mapped_pending ''foo'' (Some 5) =
            mapped_pending\<lparr>alias_to_id_map :=
              Some ([\<lparr>player_id = None, player_alias = ''bar''\<rparr>] @
                \<lparr>player_id = Some 1, player_alias = ''foo''\<rparr>\<lparr>player_id := Some 5\<rparr> #
                [\<lparr>player_id = Some 2, player_alias = ''foo''\<rparr>])\<rparr>"
      by blast
    with mapped show ?thesis by simp
  qed
  have miss: "set_alias_id_mapping mapped_pending ''baz'' (Some 5) =
     mapped_pending\<lparr>alias_to_id_map :=
        Some (mappings mapped_pending @ [\<lparr>player_id = Some 5, player_alias = ''baz''\<rparr>])\<rparr>"
    using set_alias_id_mapping_upsert [of mapped_pending "''baz''" "Some 5"] mapped
    by simp
  show ?thesis
    using twice hit miss mapped by simp
qed

lemma find_first:
  assumes "player_alias m = alias" and "\<forall>y\<in>set ys. player_alias y \<noteq> alias"
  shows "find (\<lambda>x. player_alias x = alias) (ys @ m # zs) = Some m"
  using assms by (induction ys) auto

lemma remove1_first:
  assumes "player_alias m = alias" and "\<forall>y\<in>set ys. player_alias y \<noteq> alias"
  shows "remove1 m (ys @ m # zs) = ys @ zs"
proof -
  have "m \<notin> set ys" using assms by blast
  then show ?thesis by (simp add: remove1_append)
qed

lemma delete_alias_id_mapping_hit:
  assumes "mappings self = ys @ m # zs" and "player_alias m = alias"
    and "\<forall>y\<in>set ys. player_alias y \<noteq> alias"
  shows "delete_alias_id_mapping self alias =
           (self\<lparr>alias_to_id_map := Some (ys @ zs)\<rparr>, Some m)"
  using assms by (simp add: delete_alias_id_mapping_def Let_def find_first remove1_first)

lemma delete_alias_id_mapping_miss:
  assumes "\<forall>m\<in>set (mappings self). player_alias m \<noteq> alias"
  shows "delete_alias_id_mapping self alias = (init_alias_to_id_map self, None)"
proof -
  have "find (\<lambda>x. player_alias x = alias) (mappings self) = None"
    using assms by (simp add: find_None_iff)
  then show ?thesis by (simp add: delete_alias_id_mapping_def Let_def)
qed

text \<open>
  Claim C6. \<^verbatim>\<open>delete_alias_id_mapping(alias)\<close> removes and returns the first mapping whose
  \<^verbatim>\<open>player_alias\<close> equals the alias, keeping every other mapping in place. When no mapping
  for the alias exists (the list may be empty or absent) it returns \<^verbatim>\<open>None\<close> and the list
  of mappings is unchanged: a present list leaves the document as it was, an absent one
  has become the empty list.
\<close>

theorem delete_alias_id_mapping_first:
  "(\<forall>ys m zs. mappings self = ys @ m # zs \<and> player_alias m = alias \<and>
        (\<forall>y\<in>set ys. player_alias y \<noteq> alias) \<longrightarrow>
      delete_alias_id_mapping self alias =
        (self\<lparr>alias_to_id_map := Some (ys @ zs)\<rparr>, Some m)) \<and>
   ((\<forall>m\<in>set (mappings self). player_alias m \<noteq> alias) \<longrightarrow>
      snd (delete_alias_id_mapping self alias) = None \<and>
      mappings (fst (delete_alias_id_mapping self alias)) = mappings self \<and>
      fst (delete_alias_id_mapping self alias) =
        self\<lparr>alias_to_id_map := Some (mappings self)\<rparr> \<and>
      (alias_to_id_map self \<noteq> None \<longrightarrow> fst (delete_alias_id_mapping self alias) = self))"
proof (intro conjI allI impI)
  fix ys m zs
  assume "mappings self = ys @ m # zs \<and> player_alias m = alias \<and>
        (\<forall>y\<in>set ys. player_alias y \<noteq> alias)"
  then show "delete_alias_id_mapping self alias =
        (self\<lparr>alias_to_id_map := Some (ys @ zs)\<rparr>, Some m)"
    by (simp add: delete_alias_id_mapping_hit)
next
  assume miss: "\<forall>m\<in>set (mappings self). player_alias m \<noteq> alias"
  note eq = delete_alias_id_mapping_miss [OF miss]
  show "snd (delete_alias_id_mapping self alias) = None"
    by (simp add: eq)
  show "mappings (fst (delete_alias_id_mapping self alias)) = mappings self"
    by (simp add: eq)
  show "fst (delete_alias_id_mapping self alias) =
          self\<lparr>alias_to_id_map := Some (mappings self)\<rparr>"
    by (simp add: eq init_eq)
  show "fst (delete_alias_id_mapping self alias) = self" if "alias_to_id_map self \<noteq> None"
    using that by (simp add: eq init_alias_to_id_map_def)
qed

theorem delete_alias_id_mapping_first_witness:
  "delete_alias_id_mapping mapped_pending ''foo'' =
     (mapped_pending\<lparr>alias_to_id_map :=
        Some [\<lparr>player_id = None, player_alias = ''bar''\<rparr>,
              \<lparr>player_id = Some 2, player_alias = ''foo''\<rparr>]\<rparr>,
      Some \<lparr>player_id = Some 1, player_alias = ''foo''\<rparr>) \<and>
   delete_alias_id_mapping mapped_pending ''baz'' = (mapped_pending, None) \<and>
   delete_alias_id_mapping fresh_pending ''baz'' =
     (fresh_pending\<lparr>alias_to_id_map := Some []\<rparr>, None)"
proof -
  have fresh: "mappings fresh_pending = []"
    by (simp add: mappings_def fresh_pending_def)
  have mapped: "mappings mapped_pending =
      [\<lparr>player_id = None, player_alias = ''bar''\<rparr>] @
      \<lparr>player_id = Some 1, player_alias = ''foo''\<rparr> #
      [\<lparr>player_id = Some 2, player_alias = ''foo''\<rparr>]"
    by (simp add: mappings_def mapped_pending_def)
  have present: "alias_to_id_map mapped_pending \<noteq> None"
    by (simp add: mapped_pending_def)
  have hit: "delete_alias_id_mapping mapped_pending ''foo'' =
     (mapped_pending\<lparr>alias_to_id_map :=
        Some ([\<lparr>player_id = None, player_alias = ''bar''\<rparr>] @
              [\<lparr>player_id = Some 2, player_alias = ''foo''\<rparr>])\<rparr>,
      Some \<lparr>player_id = Some 1, player_alias = ''foo''\<rparr>)"
  proof -
    from delete_alias_id_mapping_first [of mapped_pending "''foo''"]
    have "mappings mapped_pending =
            [\<lparr>player_id = None, player_alias = ''bar''\<rparr>] @
            \<lparr>player_id = Some 1, player_alias = ''foo''\<rparr> #
            [\<lparr>player_id = Some 2, player_alias = ''foo''\<rparr>] \<and>
          player_alias \<lparr>player_id = Some 1, player_alias = ''foo''\<rparr> = ''foo'' \<and>
          (\<forall>y\<in>set [\<lparr>player_id = None, player_alias = ''bar''\<rparr>]. player_alias y \<noteq> ''foo'') \<longrightarrow>
          delete_alias_id_mapping mapped_pending ''foo'' =
            (mapped_pending\<lparr>alias_to_id_map :=
               Some ([\<lparr>player_id = None, player_alias = ''bar''\<rparr>] @
                     [\<lparr>player_id = Some 2, player_alias = ''foo''\<rparr>])\<rparr>,
             Some \<lparr>player_id = Some 1, player_alias = ''foo''\<rparr>)"
      by blast
    with mapped show ?thesis by simp
  qed
  have miss: "snd (delete_alias_id_mapping mapped_pending ''baz'') = None \<and>
      fst (delete_alias_id_mapping mapped_pending ''baz'') = mapped_pending"
  proof -
    have none: "\<forall>m\<in>set (mappings mapped_pending). player_alias m \<noteq> ''baz''"
      using mapped by simp
    from delete_alias_id_mapping_first [of mapped_pending "''baz''"] none present
    show ?thesis by blast
  qed
  have absent: "snd (delete_alias_id_mapping fresh_pending ''baz'') = None \<and>
      fst (delete_alias_id_mapping fresh_pending ''baz'') =
        fresh_pending\<lparr>alias_to_id_map := Some []\<rparr>"
  proof -
    have none: "\<forall>m\<in>set (mappings fresh_pending). player_alias m \<noteq> ''baz''"
      using fresh by simp
    from delete_alias_id_mapping_first [of fresh_pending "''baz''"] none
    have "snd (delete_alias_id_mapping fresh_pending ''baz'') = None \<and>
      fst (delete_alias_id_mapping fresh_pending ''baz'') =
        fresh_pending\<lparr>alias_to_id_map := Some (mappings fresh_pending)\<rparr>"
      by blast
    then show ?thesis by (simp only: fresh)
  qed
  show ?thesis
    using hit miss absent by (simp add: prod_eq_iff)
qed

end
